theory Spec2Isabelle
  imports Complex_Main "HOL-Library.Multiset" "HOL-Library.Sublist"
begin

section \<open>Data model\<close>

text \<open>
  The embedding follows \<^verbatim>\<open>src/pages/Attendance.tsx\<close> (the attendance screen and, after the
  separator, the history screen). The unnamed second source file is a later revision of the
  attendance screen; its distance computation, its mount effect and the ledger part of
  \<^verbatim>\<open>handleAttendance\<close> are the same statements.

  JavaScript numbers that hold coordinates are modelled as \<^typ>\<open>real\<close>: the arithmetic is exact,
  the rounding of IEEE-754 doubles is not part of the model (see the note at
  \<open>calculateDistance\<close>). Timestamps come from \<^verbatim>\<open>Date.now()\<close> and are integers
  (milliseconds since the epoch).
\<close>

datatype attendanceType = CheckIn | CheckOut

datatype attendanceStatus = Present | Absent

record coords =
  latitude :: real
  longitude :: real

text \<open>
  \<^verbatim>\<open>interface AttendanceRecord\<close>. The fields \<^verbatim>\<open>id\<close> and \<^verbatim>\<open>type\<close> are written
  \<open>rec_id\<close> and \<open>rec_type\<close>; an absent \<^verbatim>\<open>photoUrl\<close> (undefined or null) is \<open>None\<close>.
\<close>

record attendanceRecord =
  rec_id :: string
  timestamp :: int
  rec_type :: attendanceType
  status :: attendanceStatus
  location :: coords
  photoUrl :: "string option"

record user =
  user_id :: string
  user_name :: string

definition OFFICE_LOCATION :: coords where
  "OFFICE_LOCATION = \<lparr>latitude = 40.7128, longitude = - 74.0060\<rparr>"

definition MAX_DISTANCE :: int where
  "MAX_DISTANCE = 100"

text \<open>
  The two entries of the browser's local storage, already parsed:
  \<^verbatim>\<open>getItem\<close> returning null is \<open>None\<close>.
\<close>

record localStorage =
  ls_currentUser :: "user option"
  ls_attendanceRecords :: "attendanceRecord list option"

text \<open>The \<^verbatim>\<open>useState\<close> cells of the \<^verbatim>\<open>Attendance\<close> component.\<close>

record attendanceState =
  currentUser :: "user option"
  currentLocation :: "coords option"
  distance :: "int option"
  isWithinOffice :: "bool option"
  isLoading :: bool
  hasCheckedIn :: bool
  attendanceRecords :: "attendanceRecord list"
  isCameraActive :: bool

definition initialState :: attendanceState where
  "initialState =
     \<lparr>currentUser = None, currentLocation = None, distance = None, isWithinOffice = None,
      isLoading = False, hasCheckedIn = False, attendanceRecords = [], isCameraActive = False\<rparr>"

section \<open>Distance classifier\<close>

text \<open>\<^verbatim>\<open>Math.round\<close>: the nearest integer, a tie going up.\<close>

definition js_round :: "real \<Rightarrow> int" where
  "js_round x = \<lfloor>x + 1 / 2\<rfloor>"

text \<open>\<^verbatim>\<open>Math.atan2(y, x)\<close>: the angle of the point \<open>(x, y)\<close>, in \<open>(-\<pi>, \<pi>]\<close>.\<close>

definition js_atan2 :: "real \<Rightarrow> real \<Rightarrow> real" where
  "js_atan2 y x =
     (if 0 < x then arctan (y / x)
      else if x < 0 then (if 0 \<le> y then arctan (y / x) + pi else arctan (y / x) - pi)
      else if 0 < y then pi / 2
      else if y < 0 then - (pi / 2)
      else 0)"

text \<open>
  \<^verbatim>\<open>calculateDistance\<close>, in three steps as in the source: the value \<^verbatim>\<open>a\<close>, the angle
  \<^verbatim>\<open>c\<close>, and the rounded product with the radius \<^verbatim>\<open>R = 6371e3\<close>.
\<close>

text \<open>
  The three definitions compute in exact real arithmetic. The program computes in doubles,
  and the two differ where rounding decides: for a pair of (nearly) antipodal points the
  double \<^verbatim>\<open>a\<close> can round to 1.0000000000000002, \<^verbatim>\<open>Math.sqrt(1 - a)\<close> is then NaN
  and so is the result, while the exact \<open>a\<close> never exceeds 1; and a product \<^verbatim>\<open>R * c\<close>
  within rounding error of a half-integer can be rounded to the other neighbour. Nothing
  below states a property of \<open>calculateDistance\<close> for all inputs except that a point is at
  distance 0 from itself; the handler's theorems treat the computed distance as a given
  value.
\<close>

definition hav_a :: "real \<Rightarrow> real \<Rightarrow> real \<Rightarrow> real \<Rightarrow> real" where
  "hav_a lat1 lon1 lat2 lon2 =
     (let phi1 = (lat1 * pi) / 180;
          phi2 = (lat2 * pi) / 180;
          dphi = ((lat2 - lat1) * pi) / 180;
          dlam = ((lon2 - lon1) * pi) / 180
      in sin (dphi / 2) * sin (dphi / 2) +
         cos phi1 * cos phi2 * sin (dlam / 2) * sin (dlam / 2))"

definition hav_c :: "real \<Rightarrow> real \<Rightarrow> real \<Rightarrow> real \<Rightarrow> real" where
  "hav_c lat1 lon1 lat2 lon2 =
     (let a = hav_a lat1 lon1 lat2 lon2
      in 2 * js_atan2 (sqrt a) (sqrt (1 - a)))"

definition calculateDistance :: "real \<Rightarrow> real \<Rightarrow> real \<Rightarrow> real \<Rightarrow> int" where
  "calculateDistance lat1 lon1 lat2 lon2 =
     (let R = 6371000;
          c = hav_c lat1 lon1 lat2 lon2;
          distance = R * c
      in js_round distance)"




section \<open>The attendance screen\<close>

text \<open>
  The success callback of \<^verbatim>\<open>getCurrentPosition\<close> stores the position, the distance to the
  office and the comparison with the threshold; the error callback (and the branch for a
  browser without geolocation) only clears the loading flag.
\<close>

definition getCurrentLocation :: "attendanceState \<Rightarrow> attendanceState" where
  "getCurrentLocation s = s\<lparr>isLoading := True\<rparr>"

definition onPositionSuccess :: "real \<Rightarrow> real \<Rightarrow> attendanceState \<Rightarrow> attendanceState" where
  "onPositionSuccess lat lon s =
     (let dist = calculateDistance lat lon (latitude OFFICE_LOCATION) (longitude OFFICE_LOCATION)
      in s\<lparr>currentLocation := Some \<lparr>latitude = lat, longitude = lon\<rparr>,
           distance := Some dist,
           isWithinOffice := Some (dist \<le> MAX_DISTANCE),
           isLoading := False\<rparr>)"

definition onPositionError :: "attendanceState \<Rightarrow> attendanceState" where
  "onPositionError s = s\<lparr>isLoading := False\<rparr>"

text \<open>
  The flag computed when the screen loads: the stored records of this user, of today's
  calendar date, of type check-in; the flag is whether there is one. The rendering of a
  timestamp as a calendar date (\<^verbatim>\<open>new Date(t).toDateString()\<close>, which depends on the
  time zone of the browser) is the parameter \<open>toDateString\<close>.
\<close>

definition loadHasCheckedIn :: "(int \<Rightarrow> 'd) \<Rightarrow> int \<Rightarrow> string \<Rightarrow> attendanceRecord list \<Rightarrow> bool" where
  "loadHasCheckedIn toDateString now uid records =
     (let today = toDateString now;
          userRecords = filter (\<lambda>r. rec_id r = uid \<and> toDateString (timestamp r) = today
                                   \<and> rec_type r = CheckIn) records
      in length userRecords > 0)"

text \<open>
  The mount effect. Without a stored user the screen navigates away and nothing is loaded.
\<close>

definition attendanceMount :: "(int \<Rightarrow> 'd) \<Rightarrow> int \<Rightarrow> localStorage \<Rightarrow> attendanceState" where
  "attendanceMount toDateString now ls =
     (case ls_currentUser ls of
        None \<Rightarrow> initialState
      | Some u \<Rightarrow>
          let s1 = initialState\<lparr>currentUser := Some u\<rparr>;
              s2 = (case ls_attendanceRecords ls of
                      None \<Rightarrow> s1
                    | Some records \<Rightarrow>
                        s1\<lparr>attendanceRecords := records,
                           hasCheckedIn := loadHasCheckedIn toDateString now (user_id u) records\<rparr>)
          in getCurrentLocation s2)"

text \<open>
  The record built by \<^verbatim>\<open>handleAttendance\<close>. \<open>captured\<close> is what \<^verbatim>\<open>capturePhoto()\<close>
  returns; it is only asked for while the camera is active. In
  \<^verbatim>\<open>isWithinOffice ? "present" : "absent"\<close> a null flag counts as false.
\<close>

definition newRecord ::
  "user \<Rightarrow> coords \<Rightarrow> attendanceType \<Rightarrow> int \<Rightarrow> string option \<Rightarrow> attendanceState \<Rightarrow> attendanceRecord" where
  "newRecord u loc type now captured s =
     \<lparr>rec_id = user_id u,
      timestamp = now,
      rec_type = type,
      status = (if isWithinOffice s = Some True then Present else Absent),
      location = loc,
      photoUrl = (if isCameraActive s then captured else None)\<rparr>"

text \<open>
  \<^verbatim>\<open>handleAttendance\<close>: the guard on user and location, the new record, the copy of the
  array with the record at its end, the write to local storage, and the update of the flag.
  The camera is stopped in both revisions of the file.
\<close>

definition handleAttendance ::
  "attendanceType \<Rightarrow> int \<Rightarrow> string option \<Rightarrow> attendanceState \<times> localStorage
     \<Rightarrow> attendanceState \<times> localStorage" where
  "handleAttendance type now captured w =
     (case w of (s, ls) \<Rightarrow>
        (case currentUser s of
           None \<Rightarrow> (s, ls)
         | Some u \<Rightarrow>
             (case currentLocation s of
                None \<Rightarrow> (s, ls)
              | Some loc \<Rightarrow>
                  let updatedRecords = attendanceRecords s @ [newRecord u loc type now captured s]
                  in (s\<lparr>attendanceRecords := updatedRecords,
                        hasCheckedIn := (type = CheckIn),
                        isCameraActive := False\<rparr>,
                      ls\<lparr>ls_attendanceRecords := Some updatedRecords\<rparr>))))"

text \<open>
  \<^verbatim>\<open>handleLogout\<close> removes the stored user and navigates to the landing page: the
  screen is unmounted, so its state cells are back at their initial values.
\<close>

definition handleLogout :: "attendanceState \<times> localStorage \<Rightarrow> attendanceState \<times> localStorage" where
  "handleLogout w = (case w of (s, ls) \<Rightarrow> (initialState, ls\<lparr>ls_currentUser := None\<rparr>))"

text \<open>The persisted ledger: no entry in the storage is the empty ledger.\<close>

definition ledger :: "localStorage \<Rightarrow> attendanceRecord list" where
  "ledger ls = (case ls_attendanceRecords ls of None \<Rightarrow> [] | Some records \<Rightarrow> records)"

section \<open>The history screen\<close>

text \<open>
  \<^verbatim>\<open>Array.prototype.sort\<close> with a comparator is a stable sort: \<open>x\<close> goes before the first
  element \<open>y\<close> with \<open>cmp x y \<le> 0\<close>.
\<close>

fun insertBy :: "('a \<Rightarrow> 'a \<Rightarrow> int) \<Rightarrow> 'a \<Rightarrow> 'a list \<Rightarrow> 'a list" where
  "insertBy cmp x [] = [x]"
| "insertBy cmp x (y # ys) = (if cmp x y \<le> 0 then x # y # ys else y # insertBy cmp x ys)"

definition js_sort :: "('a \<Rightarrow> 'a \<Rightarrow> int) \<Rightarrow> 'a list \<Rightarrow> 'a list" where
  "js_sort cmp xs = foldr (insertBy cmp) xs []"

definition userRecords :: "string \<Rightarrow> attendanceRecord list \<Rightarrow> attendanceRecord list" where
  "userRecords uid records = filter (\<lambda>r. rec_id r = uid) records"

definition historyMount :: "localStorage \<Rightarrow> attendanceRecord list" where
  "historyMount ls =
     (case ls_currentUser ls of
        None \<Rightarrow> []
      | Some u \<Rightarrow>
          (case ls_attendanceRecords ls of
             None \<Rightarrow> []
           | Some records \<Rightarrow> userRecords (user_id u) records))"

definition historyRows :: "attendanceRecord list \<Rightarrow> attendanceRecord list" where
  "historyRows rs = js_sort (\<lambda>a b. timestamp b - timestamp a) rs"

section \<open>The screen as a transition system\<close>

text \<open>
  What can happen to a mounted attendance screen and the storage behind it: the screen is
  (re)loaded at a time, a position request starts, succeeds or fails, an attendance button
  is pressed, the camera is started or stopped, the user logs out. Of the camera only the
  flag \<open>isCameraActive\<close> is kept; the video stream and the canvas are not modelled, and
  the photo a capture returns is an input of the attendance event.
\<close>

datatype event =
    Mount int
  | RefreshLocation
  | PositionSuccess real real
  | PositionError
  | Attend attendanceType int "string option"
  | StartCamera
  | StopCamera
  | Logout

fun step ::
  "(int \<Rightarrow> 'd) \<Rightarrow> event \<Rightarrow> attendanceState \<times> localStorage \<Rightarrow> attendanceState \<times> localStorage" where
  "step toDateString (Mount now) (s, ls) = (attendanceMount toDateString now ls, ls)"
| "step toDateString RefreshLocation (s, ls) = (getCurrentLocation s, ls)"
| "step toDateString (PositionSuccess lat lon) (s, ls) = (onPositionSuccess lat lon s, ls)"
| "step toDateString PositionError (s, ls) = (onPositionError s, ls)"
| "step toDateString (Attend type now captured) (s, ls) = handleAttendance type now captured (s, ls)"
| "step toDateString StartCamera (s, ls) = (s\<lparr>isCameraActive := True\<rparr>, ls)"
| "step toDateString StopCamera (s, ls) = (s\<lparr>isCameraActive := False\<rparr>, ls)"
| "step toDateString Logout (s, ls) = handleLogout (s, ls)"

fun run ::
  "(int \<Rightarrow> 'd) \<Rightarrow> event list \<Rightarrow> attendanceState \<times> localStorage \<Rightarrow> attendanceState \<times> localStorage" where
  "run toDateString [] w = w"
| "run toDateString (e # es) w = run toDateString es (step toDateString e w)"

inductive reachable :: "(int \<Rightarrow> 'd) \<Rightarrow> attendanceState \<times> localStorage \<Rightarrow> bool"
  for toDateString :: "int \<Rightarrow> 'd" where
  reachable_init: "reachable toDateString (initialState, ls)"
| reachable_step: "reachable toDateString w \<Longrightarrow> reachable toDateString (step toDateString e w)"

section \<open>Scenario data\<close>

text \<open>
  Concrete inputs for the scenarios: calendar dates in the UTC time zone (the day number of
  a timestamp), the user U1, a storage that holds only this user, and the screen after it
  was loaded and the position of the office was read.
\<close>

definition utcDay :: "int \<Rightarrow> int" where
  "utcDay t = t div 86400000"

definition userU1 :: user where
  "userU1 = \<lparr>user_id = ''U1'', user_name = ''Ann''\<rparr>"

definition storageU1 :: localStorage where
  "storageU1 = \<lparr>ls_currentUser = Some userU1, ls_attendanceRecords = None\<rparr>"

definition atOffice :: "attendanceState \<times> localStorage" where
  "atOffice = run utcDay [Mount 1000, PositionSuccess 40.7128 (- 74.0060)] (initialState, storageU1)"

definition noLocation :: "attendanceState \<times> localStorage" where
  "noLocation = run utcDay [Mount 1000, PositionError] (initialState, storageU1)"

definition recIn :: attendanceRecord where
  "recIn = \<lparr>rec_id = ''U1'', timestamp = 2000, rec_type = CheckIn, status = Present,
            location = \<lparr>latitude = 40.7128, longitude = - 74.0060\<rparr>, photoUrl = None\<rparr>"

definition recOut :: attendanceRecord where
  "recOut = \<lparr>rec_id = ''U1'', timestamp = 3000, rec_type = CheckOut, status = Present,
             location = \<lparr>latitude = 40.7128, longitude = - 74.0060\<rparr>, photoUrl = None\<rparr>"

definition recU2 :: attendanceRecord where
  "recU2 = \<lparr>rec_id = ''U2'', timestamp = 2500, rec_type = CheckIn, status = Absent,
            location = \<lparr>latitude = 40.7228, longitude = - 74.0060\<rparr>, photoUrl = None\<rparr>"

definition afterCheckIn :: "attendanceState \<times> localStorage" where
  "afterCheckIn = run utcDay [Attend CheckIn 2000 None] atOffice"

definition afterCheckOut :: "attendanceState \<times> localStorage" where
  "afterCheckOut = run utcDay [Attend CheckOut 3000 None] afterCheckIn"

section \<open>Properties of the distance computation\<close>

text \<open>
  The lemmas of this section evaluate the computation at the inputs of the scenarios: a
  point and itself, and the point one hundredth of a degree north of the office. At these
  inputs the exact value is far from a rounding boundary (0, and 1111.95 before the final
  rounding), so the exact arithmetic of the model and the double arithmetic of the program
  give the same integer.
\<close>

subsection \<open>A point and itself\<close>

lemma hav_a_same: "hav_a lat lon lat lon = 0"
  by (simp add: hav_a_def)

lemma calculateDistance_same: "calculateDistance lat lon lat lon = 0"
  by (simp add: calculateDistance_def hav_c_def hav_a_same js_atan2_def js_round_def)


subsection \<open>Bounds on pi\<close>







subsection \<open>One hundredth of a degree north of the office\<close>








section \<open>Properties of the attendance handler\<close>

lemma handleAttendance_guarded:
  assumes "currentUser s = Some u" "currentLocation s = Some loc"
  shows "handleAttendance type now captured (s, ls) =
           (s\<lparr>attendanceRecords := attendanceRecords s @ [newRecord u loc type now captured s],
              hasCheckedIn := (type = CheckIn),
              isCameraActive := False\<rparr>,
            ls\<lparr>ls_attendanceRecords := Some (attendanceRecords s @ [newRecord u loc type now captured s])\<rparr>)"
  using assms by (simp add: handleAttendance_def Let_def)



lemma handleAttendance_no_user:
  "currentUser s = None \<Longrightarrow> handleAttendance type now captured (s, ls) = (s, ls)"
  by (simp add: handleAttendance_def)

lemma handleAttendance_no_location:
  "currentLocation s = None \<Longrightarrow> handleAttendance type now captured (s, ls) = (s, ls)"
  by (simp add: handleAttendance_def split: option.splits)

lemma handleAttendance_records_prefix:
  "prefix (attendanceRecords s) (attendanceRecords (fst (handleAttendance type now captured (s, ls))))"
  by (simp add: handleAttendance_def Let_def split: option.splits)

lemma attendanceMount_user:
  "currentUser (attendanceMount toDateString now ls) = ls_currentUser ls"
  by (simp add: attendanceMount_def getCurrentLocation_def initialState_def Let_def
      split: option.splits)

lemma attendanceMount_records:
  "ls_currentUser ls = Some u \<Longrightarrow> attendanceRecords (attendanceMount toDateString now ls) = ledger ls"
  by (simp add: attendanceMount_def getCurrentLocation_def initialState_def ledger_def Let_def
      split: option.splits)

lemma attendanceMount_location:
  "currentLocation (attendanceMount toDateString now ls) = None"
  by (simp add: attendanceMount_def getCurrentLocation_def initialState_def Let_def
      split: option.splits)

text \<open>
  While a user is loaded, the array in memory is the persisted ledger.
\<close>

lemma reachable_records:
  assumes "reachable toDateString w"
  shows "currentUser (fst w) \<noteq> None \<longrightarrow> attendanceRecords (fst w) = ledger (snd w)"
  using assms
proof (induction rule: reachable.induct)
  case (reachable_init ls)
  show ?case by (simp add: initialState_def)
next
  case (reachable_step w e)
  obtain s ls where w: "w = (s, ls)" by (cases w)
  show ?case
  proof (cases e)
    case (Mount now)
    then show ?thesis
      using attendanceMount_records [of ls _ toDateString now]
      by (auto simp: w attendanceMount_user)
  next
    case (Attend type now captured)
    then show ?thesis using reachable_step.IH
      by (auto simp: w handleAttendance_def ledger_def Let_def split: option.splits)
  next
    case Logout
    then show ?thesis by (simp add: w handleLogout_def initialState_def)
  qed (use reachable_step.IH in
        \<open>simp_all add: w getCurrentLocation_def onPositionSuccess_def onPositionError_def
           Let_def\<close>)
qed

text \<open>
  The position, the distance and the flag are written together, so a stored position
  always comes with its own classification.
\<close>

lemma reachable_location:
  assumes "reachable toDateString w"
  shows "currentLocation (fst w) = Some loc \<longrightarrow>
           distance (fst w) = Some (calculateDistance (latitude loc) (longitude loc)
                                      (latitude OFFICE_LOCATION) (longitude OFFICE_LOCATION)) \<and>
           isWithinOffice (fst w) = Some (calculateDistance (latitude loc) (longitude loc)
                                      (latitude OFFICE_LOCATION) (longitude OFFICE_LOCATION)
                                    \<le> MAX_DISTANCE)"
  using assms
proof (induction rule: reachable.induct)
  case (reachable_init ls)
  show ?case by (simp add: initialState_def)
next
  case (reachable_step w e)
  obtain s ls where w: "w = (s, ls)" by (cases w)
  show ?case
  proof (cases e)
    case (Mount now)
    then show ?thesis by (simp add: w attendanceMount_location)
  next
    case (PositionSuccess lat lon)
    then show ?thesis by (auto simp: w onPositionSuccess_def Let_def)
  next
    case (Attend type now captured)
    then show ?thesis using reachable_step.IH
      by (auto simp: w handleAttendance_def Let_def split: option.splits)
  next
    case Logout
    then show ?thesis by (simp add: w handleLogout_def initialState_def)
  qed (use reachable_step.IH in
        \<open>simp_all add: w getCurrentLocation_def onPositionError_def\<close>)
qed

lemma step_ledger_prefix:
  assumes "reachable toDateString w"
  shows "prefix (ledger (snd w)) (ledger (snd (step toDateString e w)))"
proof -
  obtain s ls where w: "w = (s, ls)" by (cases w)
  show ?thesis
  proof (cases e)
    case (Attend type now captured)
    show ?thesis
    proof (cases "currentUser s = None \<or> currentLocation s = None")
      case True
      then show ?thesis
        using handleAttendance_no_user [of s type now captured ls]
          handleAttendance_no_location [of s type now captured ls]
        by (auto simp: w Attend)
    next
      case False
      then obtain u loc where g: "currentUser s = Some u" "currentLocation s = Some loc"
        by auto
      have "attendanceRecords s = ledger ls"
        using reachable_records [OF assms] g by (simp add: w)
      then show ?thesis
        by (simp add: w Attend handleAttendance_guarded [OF g] ledger_def)
    qed
  qed (simp_all add: w handleLogout_def ledger_def)
qed

lemma run_reachable:
  "reachable toDateString w \<Longrightarrow> reachable toDateString (run toDateString es w)"
  by (induction es arbitrary: w) (simp_all add: reachable_step)

lemma run_ledger_prefix:
  "reachable toDateString w \<Longrightarrow> prefix (ledger (snd w)) (ledger (snd (run toDateString es w)))"
proof (induction es arbitrary: w)
  case Nil
  show ?case by simp
next
  case (Cons e es)
  have "prefix (ledger (snd w)) (ledger (snd (step toDateString e w)))"
    using Cons.prems by (rule step_ledger_prefix)
  moreover have "prefix (ledger (snd (step toDateString e w)))
                   (ledger (snd (run toDateString es (step toDateString e w))))"
    using Cons.prems by (intro Cons.IH reachable_step)
  ultimately show ?case by (simp add: prefix_order.order_trans)
qed

lemma prefix_snoc_nth:
  assumes "prefix (xs @ [x]) ys"
  shows "length xs < length ys \<and> ys ! length xs = x"
proof -
  obtain zs where "ys = (xs @ [x]) @ zs" using assms by (auto simp: prefix_def)
  then show ?thesis by (simp add: nth_append)
qed

section \<open>Properties of the history screen\<close>

lemma insertBy_timestamp:
  "insertBy (\<lambda>a b. timestamp b - timestamp a) x ys = insort_key (\<lambda>r. - timestamp r) x ys"
  by (induction ys) simp_all

lemma historyRows_sort_key: "historyRows rs = sort_key (\<lambda>r. - timestamp r) rs"
proof -
  have "foldr (insertBy (\<lambda>a b. timestamp b - timestamp a)) rs [] =
        foldr (insort_key (\<lambda>r. - timestamp r)) rs []"
    by (induction rs) (simp_all add: insertBy_timestamp)
  then show ?thesis by (simp add: historyRows_def js_sort_def sort_key_def)
qed

lemma historyRows_descending:
  "sorted_wrt (\<lambda>a b. timestamp b \<le> timestamp a) (historyRows rs)"
proof -
  have "sorted (map (\<lambda>r. - timestamp r) (historyRows rs))"
    by (simp add: historyRows_sort_key)
  then show ?thesis by (simp add: sorted_wrt_map)
qed

lemma historyRows_mset: "mset (historyRows rs) = mset rs"
  by (simp add: historyRows_sort_key)

lemma historyRows_two:
  "timestamp a < timestamp b \<Longrightarrow> historyRows [a, b] = [b, a]"
  by (simp add: historyRows_def js_sort_def)

lemma userRecords_append_other:
  "rec_id r \<noteq> uid \<Longrightarrow> userRecords uid (records @ [r]) = userRecords uid records"
  by (simp add: userRecords_def)

lemma loadHasCheckedIn_userRecords:
  "loadHasCheckedIn toDateString now uid records =
     loadHasCheckedIn toDateString now uid (userRecords uid records)"
proof -
  have "filter (\<lambda>r. rec_id r = uid \<and> toDateString (timestamp r) = toDateString now
                     \<and> rec_type r = CheckIn) (filter (\<lambda>r. rec_id r = uid) records)
        = filter (\<lambda>r. rec_id r = uid \<and> toDateString (timestamp r) = toDateString now
                     \<and> rec_type r = CheckIn) records"
    by (simp add: conj_commute cong: conj_cong)
  then show ?thesis by (simp add: loadHasCheckedIn_def userRecords_def Let_def)
qed

section \<open>The scenario states\<close>

lemma atOffice_eq:
  "atOffice =
     (\<lparr>currentUser = Some userU1,
       currentLocation = Some \<lparr>latitude = 40.7128, longitude = - 74.0060\<rparr>,
       distance = Some 0, isWithinOffice = Some True, isLoading = False, hasCheckedIn = False,
       attendanceRecords = [], isCameraActive = False\<rparr>, storageU1)"
  by (simp add: atOffice_def attendanceMount_def storageU1_def getCurrentLocation_def
      initialState_def onPositionSuccess_def OFFICE_LOCATION_def calculateDistance_same
      MAX_DISTANCE_def Let_def)

lemma noLocation_eq:
  "noLocation =
     (\<lparr>currentUser = Some userU1, currentLocation = None, distance = None,
       isWithinOffice = None, isLoading = False, hasCheckedIn = False,
       attendanceRecords = [], isCameraActive = False\<rparr>, storageU1)"
  by (simp add: noLocation_def attendanceMount_def storageU1_def getCurrentLocation_def
      initialState_def onPositionError_def Let_def)

lemma atOffice_reachable: "reachable utcDay atOffice"
  unfolding atOffice_def by (intro run_reachable reachable_init)

lemma noLocation_reachable: "reachable utcDay noLocation"
  unfolding noLocation_def by (intro run_reachable reachable_init)

lemma afterCheckIn_eq:
  "afterCheckIn =
     (\<lparr>currentUser = Some userU1,
       currentLocation = Some \<lparr>latitude = 40.7128, longitude = - 74.0060\<rparr>,
       distance = Some 0, isWithinOffice = Some True, isLoading = False, hasCheckedIn = True,
       attendanceRecords = [recIn], isCameraActive = False\<rparr>,
      \<lparr>ls_currentUser = Some userU1, ls_attendanceRecords = Some [recIn]\<rparr>)"
  by (simp add: afterCheckIn_def atOffice_eq handleAttendance_def newRecord_def recIn_def
      userU1_def storageU1_def Let_def)

lemma afterCheckOut_eq:
  "afterCheckOut =
     (\<lparr>currentUser = Some userU1,
       currentLocation = Some \<lparr>latitude = 40.7128, longitude = - 74.0060\<rparr>,
       distance = Some 0, isWithinOffice = Some True, isLoading = False, hasCheckedIn = False,
       attendanceRecords = [recIn, recOut], isCameraActive = False\<rparr>,
      \<lparr>ls_currentUser = Some userU1, ls_attendanceRecords = Some [recIn, recOut]\<rparr>)"
  by (simp add: afterCheckOut_def afterCheckIn_eq handleAttendance_def newRecord_def recOut_def
      userU1_def Let_def)

lemma loadHasCheckedIn_iff:
  "loadHasCheckedIn toDateString now uid records \<longleftrightarrow>
     (\<exists>r \<in> set records. rec_id r = uid \<and> toDateString (timestamp r) = toDateString now
                          \<and> rec_type r = CheckIn)"
  by (auto simp: loadHasCheckedIn_def Let_def filter_empty_conv)

section \<open>The claims\<close>

text \<open>
  C1. The flag computed on page load is said to be true exactly when the user's most recent
  record of the day is a check-in with no check-out after it, and false right after a
  check-out. The mount effect counts check-in records only: after a check-in and a check-out
  on the same day the handler has set the flag to false, and a reload of the screen over
  the same storage sets it to true.
\<close>

theorem C1_reload_after_check_out:
  "ledger (snd afterCheckOut) = [recIn, recOut] \<and>
   hasCheckedIn (fst afterCheckOut) = False \<and>
   hasCheckedIn (fst (step utcDay (Mount 4000) afterCheckOut)) = True"
  by (simp add: afterCheckOut_eq ledger_def attendanceMount_def getCurrentLocation_def
      initialState_def loadHasCheckedIn_def recIn_def recOut_def userU1_def utcDay_def Let_def)

text \<open>
  C2 (as amended). With no current location the attendance handler permits no action: it
  returns at its guard, appends no record, and leaves the state of the screen, the flag
  and the stored ledger as they are, for a check-in as for a check-out.
\<close>

theorem C2_no_location_no_record:
  assumes "currentLocation s = None"
  shows "handleAttendance type now captured (s, ls) = (s, ls) \<and>
         ledger (snd (handleAttendance type now captured (s, ls))) = ledger ls \<and>
         hasCheckedIn (fst (handleAttendance type now captured (s, ls))) = hasCheckedIn s"
  using assms by (simp add: handleAttendance_no_location)

theorem C2_no_location_no_record_witness:
  "currentLocation (fst noLocation) = None \<and>
   handleAttendance CheckOut 2000 None (fst noLocation, snd noLocation)
     = (fst noLocation, snd noLocation) \<and>
   ledger (snd (handleAttendance CheckOut 2000 None (fst noLocation, snd noLocation)))
     = ledger (snd noLocation) \<and>
   hasCheckedIn (fst (handleAttendance CheckOut 2000 None (fst noLocation, snd noLocation)))
     = hasCheckedIn (fst noLocation)"
proof -
  have h: "currentLocation (fst noLocation) = None" by (simp add: noLocation_eq)
  show ?thesis
    using h C2_no_location_no_record [OF h, of CheckOut 2000 None "snd noLocation"] by simp
qed

text \<open>
  C2 as it was stated, that an action without a location still appends a record, fails for
  the user U1 whose position request has failed: the check-in changes nothing and the
  ledger stays empty.
\<close>

theorem C2_counterexample:
  "currentUser (fst noLocation) = Some userU1 \<and>
   currentLocation (fst noLocation) = None \<and>
   handleAttendance CheckIn 2000 None noLocation = noLocation \<and>
   ledger (snd (handleAttendance CheckIn 2000 None noLocation)) = []"
  by (simp add: noLocation_eq handleAttendance_def ledger_def storageU1_def)

text \<open>
  C3. An attendance action with a captured location appends a record whose status is
  present exactly when the distance of that location from the office, as computed and
  stored when the location was read, is at most the threshold of 100 metres, and absent
  otherwise; whatever happens afterwards, the record at that place of the ledger is still
  the same record.
\<close>

theorem C3_status_fixed_at_creation:
  assumes "reachable toDateString w"
    and "currentUser (fst w) = Some u"
    and "currentLocation (fst w) = Some loc"
  shows "ledger (snd (handleAttendance type now captured w)) =
           ledger (snd w) @ [newRecord u loc type now captured (fst w)] \<and>
         location (newRecord u loc type now captured (fst w)) = loc \<and>
         distance (fst w) = Some (calculateDistance (latitude loc) (longitude loc)
                                   (latitude OFFICE_LOCATION) (longitude OFFICE_LOCATION)) \<and>
         (status (newRecord u loc type now captured (fst w)) = Present \<longleftrightarrow>
            calculateDistance (latitude loc) (longitude loc)
              (latitude OFFICE_LOCATION) (longitude OFFICE_LOCATION) \<le> MAX_DISTANCE) \<and>
         (status (newRecord u loc type now captured (fst w)) = Absent \<longleftrightarrow>
            \<not> calculateDistance (latitude loc) (longitude loc)
              (latitude OFFICE_LOCATION) (longitude OFFICE_LOCATION) \<le> MAX_DISTANCE) \<and>
         (\<forall>es. length (ledger (snd w))
                 < length (ledger (snd (run toDateString es (handleAttendance type now captured w)))) \<and>
               ledger (snd (run toDateString es (handleAttendance type now captured w)))
                 ! length (ledger (snd w)) = newRecord u loc type now captured (fst w))"
proof -
  obtain s ls where w: "w = (s, ls)" by (cases w)
  have g: "currentUser s = Some u" "currentLocation s = Some loc"
    using assms(2,3) by (simp_all add: w)
  let ?r = "newRecord u loc type now captured s"
  let ?d = "calculateDistance (latitude loc) (longitude loc)
              (latitude OFFICE_LOCATION) (longitude OFFICE_LOCATION)"
  have mem: "attendanceRecords s = ledger ls"
    using reachable_records [OF assms(1)] g by (simp add: w)
  have "ledger (snd (handleAttendance type now captured w)) = attendanceRecords s @ [?r]"
    by (simp add: w handleAttendance_guarded [OF g] ledger_def)
  then have app: "ledger (snd (handleAttendance type now captured w)) = ledger ls @ [?r]"
    by (simp only: mem)
  have cls: "distance s = Some ?d" "isWithinOffice s = Some (?d \<le> MAX_DISTANCE)"
    using reachable_location [OF assms(1), of loc] g by (simp_all add: w)
  have st: "status ?r = (if ?d \<le> MAX_DISTANCE then Present else Absent)"
    by (simp add: newRecord_def cls)
  have later: "length (ledger ls) < length (ledger (snd (run toDateString es
                   (handleAttendance type now captured w)))) \<and>
               ledger (snd (run toDateString es (handleAttendance type now captured w)))
                 ! length (ledger ls) = ?r" for es
  proof -
    have "handleAttendance type now captured w = step toDateString (Attend type now captured) w"
      by (simp add: w)
    then have "reachable toDateString (handleAttendance type now captured w)"
      using assms(1) by (simp add: reachable_step)
    then have "prefix (ledger ls @ [?r])
                 (ledger (snd (run toDateString es (handleAttendance type now captured w))))"
      using run_ledger_prefix [of toDateString "handleAttendance type now captured w" es]
      by (simp add: app)
    then show ?thesis by (rule prefix_snoc_nth)
  qed
  show ?thesis
    using app cls(1) st later by (simp add: w newRecord_def)
qed

theorem C3_status_fixed_at_creation_witness:
  "reachable utcDay atOffice \<and>
   currentUser (fst atOffice) = Some userU1 \<and>
   currentLocation (fst atOffice) = Some \<lparr>latitude = 40.7128, longitude = - 74.0060\<rparr> \<and>
   ledger (snd (handleAttendance CheckIn 2000 None atOffice)) = [recIn] \<and>
   status recIn = Present \<and>
   (\<forall>es. ledger (snd (run utcDay es (handleAttendance CheckIn 2000 None atOffice))) ! 0 = recIn)"
proof -
  have u: "currentUser (fst atOffice) = Some userU1"
    and l: "currentLocation (fst atOffice) = Some \<lparr>latitude = 40.7128, longitude = - 74.0060\<rparr>"
    by (simp_all add: atOffice_eq)
  have r: "newRecord userU1 \<lparr>latitude = 40.7128, longitude = - 74.0060\<rparr> CheckIn 2000 None
             (fst atOffice) = recIn"
    by (simp add: atOffice_eq newRecord_def recIn_def userU1_def)
  have e: "ledger (snd atOffice) = []"
    by (simp add: atOffice_eq ledger_def storageU1_def)
  note inst = C3_status_fixed_at_creation [OF atOffice_reachable u l, of CheckIn 2000 None,
      unfolded r e]
  have "status recIn = Present" by (simp add: recIn_def)
  then show ?thesis
    using atOffice_reachable u l inst by simp
qed

text \<open>
  C5. The handler puts the new record at the end of the sequence and leaves the records
  before it as they were: the array in memory and the stored ledger are the old array
  followed by the new record. No event of the screen changes or removes a stored record:
  the ledger before an event is a prefix of the ledger after it.
\<close>

theorem C5_append_only:
  "(currentUser s = Some u \<and> currentLocation s = Some loc \<longrightarrow>
      attendanceRecords (fst (handleAttendance type now captured (s, ls))) =
        attendanceRecords s @ [newRecord u loc type now captured s] \<and>
      ls_attendanceRecords (snd (handleAttendance type now captured (s, ls))) =
        Some (attendanceRecords s @ [newRecord u loc type now captured s])) \<and>
   prefix (attendanceRecords s)
     (attendanceRecords (fst (handleAttendance type now captured (s, ls)))) \<and>
   (reachable toDateString w \<longrightarrow>
      prefix (ledger (snd w)) (ledger (snd (step toDateString e w))) \<and>
      prefix (ledger (snd w)) (ledger (snd (run toDateString es w))))"
  by (simp add: handleAttendance_guarded handleAttendance_records_prefix
      step_ledger_prefix run_ledger_prefix)

theorem C5_append_only_witness:
  "currentUser (fst afterCheckIn) = Some userU1 \<and>
   currentLocation (fst afterCheckIn) = Some \<lparr>latitude = 40.7128, longitude = - 74.0060\<rparr> \<and>
   reachable utcDay afterCheckIn \<and>
   attendanceRecords (fst (handleAttendance CheckOut 3000 None afterCheckIn)) = [recIn, recOut] \<and>
   ls_attendanceRecords (snd (handleAttendance CheckOut 3000 None afterCheckIn))
     = Some [recIn, recOut] \<and>
   prefix [recIn] (ledger (snd (step utcDay (Attend CheckOut 3000 None) afterCheckIn))) \<and>
   prefix [recIn] (ledger (snd (run utcDay [Logout, Mount 5000] afterCheckIn)))"
proof -
  have reach: "reachable utcDay afterCheckIn"
    unfolding afterCheckIn_def by (intro run_reachable atOffice_reachable)
  have r: "newRecord userU1 \<lparr>latitude = 40.7128, longitude = - 74.0060\<rparr> CheckOut 3000 None
             (fst afterCheckIn) = recOut"
    by (simp add: afterCheckIn_eq newRecord_def recOut_def userU1_def)
  have w: "(fst afterCheckIn, snd afterCheckIn) = afterCheckIn" by simp
  have l: "ledger (snd afterCheckIn) = [recIn]" "attendanceRecords (fst afterCheckIn) = [recIn]"
    by (simp_all add: afterCheckIn_eq ledger_def)
  have g: "currentUser (fst afterCheckIn) = Some userU1"
    "currentLocation (fst afterCheckIn) = Some \<lparr>latitude = 40.7128, longitude = - 74.0060\<rparr>"
    by (simp_all add: afterCheckIn_eq)
  show ?thesis
    using reach g
      C5_append_only [of "fst afterCheckIn" userU1 "\<lparr>latitude = 40.7128, longitude = - 74.0060\<rparr>"
        CheckOut 3000 None "snd afterCheckIn" utcDay afterCheckIn
        "Attend CheckOut 3000 None" "[Logout, Mount 5000]"]
    unfolding w r l by simp
qed


text \<open>
  C7. The history screen keeps exactly the stored records whose id is the user's id, in
  their stored order, and shows them sorted by timestamp, newest first (a stable sort:
  records of equal timestamp keep their stored order). After a check-in and a later
  check-out the two records are shown with the check-out first.
\<close>

theorem C7_history_view:
  "(ls_currentUser ls = Some u \<and> ls_attendanceRecords ls = Some records \<longrightarrow>
      historyMount ls = filter (\<lambda>r. rec_id r = user_id u) records) \<and>
   sorted_wrt (\<lambda>a b. timestamp b \<le> timestamp a) (historyRows (historyMount ls)) \<and>
   mset (historyRows (historyMount ls)) = mset (historyMount ls) \<and>
   historyRows (historyMount ls) = sort_key (\<lambda>r. - timestamp r) (historyMount ls) \<and>
   (ls_currentUser ls = Some u \<and> ls_attendanceRecords ls = Some [a, b] \<and>
    rec_id a = user_id u \<and> rec_id b = user_id u \<and>
    rec_type a = CheckIn \<and> rec_type b = CheckOut \<and> timestamp a < timestamp b \<longrightarrow>
      historyRows (historyMount ls) = [b, a])"
  by (auto simp: historyMount_def userRecords_def historyRows_descending historyRows_mset
      historyRows_sort_key [symmetric] historyRows_two)

theorem C7_history_view_witness:
  "ls_currentUser (snd afterCheckOut) = Some userU1 \<and>
   ls_attendanceRecords (snd afterCheckOut) = Some [recIn, recOut] \<and>
   rec_id recIn = user_id userU1 \<and> rec_id recOut = user_id userU1 \<and>
   rec_type recIn = CheckIn \<and> rec_type recOut = CheckOut \<and>
   timestamp recIn < timestamp recOut \<and>
   historyMount (snd afterCheckOut) = [recIn, recOut] \<and>
   historyRows (historyMount (snd afterCheckOut)) = [recOut, recIn]"
proof -
  have h: "ls_currentUser (snd afterCheckOut) = Some userU1"
    "ls_attendanceRecords (snd afterCheckOut) = Some [recIn, recOut]"
    "rec_id recIn = user_id userU1" "rec_id recOut = user_id userU1"
    "rec_type recIn = CheckIn" "rec_type recOut = CheckOut"
    "timestamp recIn < timestamp recOut"
    by (simp_all add: afterCheckOut_eq recIn_def recOut_def userU1_def)
  show ?thesis
    using h C7_history_view [of "snd afterCheckOut" userU1 "[recIn, recOut]" recIn recOut]
    by auto
qed

text \<open>
  C8. The handler does not look at the order of actions: with a user and a location it
  appends a record of the requested type whatever the flag and the ledger are, so a second
  check-in while the user is checked in, or a check-out with no check-in that day, is
  recorded.
\<close>

theorem C8_no_ordering_check:
  assumes "currentUser s = Some u" and "currentLocation s = Some loc"
  shows "attendanceRecords (fst (handleAttendance type now captured (s, ls))) =
           attendanceRecords s @ [newRecord u loc type now captured s] \<and>
         ledger (snd (handleAttendance type now captured (s, ls))) =
           attendanceRecords s @ [newRecord u loc type now captured s] \<and>
         rec_type (newRecord u loc type now captured s) = type \<and>
         rec_id (newRecord u loc type now captured s) = user_id u"
  by (simp add: handleAttendance_guarded [OF assms] ledger_def newRecord_def)

theorem C8_no_ordering_check_witness:
  "currentUser (fst afterCheckIn) = Some userU1 \<and>
   currentLocation (fst afterCheckIn) = Some \<lparr>latitude = 40.7128, longitude = - 74.0060\<rparr> \<and>
   hasCheckedIn (fst afterCheckIn) \<and>
   map rec_type (ledger (snd (handleAttendance CheckIn 3000 None
                                (fst afterCheckIn, snd afterCheckIn)))) = [CheckIn, CheckIn]"
proof -
  have g: "currentUser (fst afterCheckIn) = Some userU1"
    "currentLocation (fst afterCheckIn) = Some \<lparr>latitude = 40.7128, longitude = - 74.0060\<rparr>"
    by (simp_all add: afterCheckIn_eq)
  have l: "attendanceRecords (fst afterCheckIn) = [recIn]" "hasCheckedIn (fst afterCheckIn)"
    by (simp_all add: afterCheckIn_eq)
  show ?thesis
    using g l C8_no_ordering_check [OF g, of CheckIn 3000 None "snd afterCheckIn"]
    by (simp add: recIn_def)
qed

text \<open>
  C9. Records of another user do not influence what is derived for a user: with a record
  of a different id added at the end of the stored ledger, the flag computed on load, the
  records kept by the history screen and the rows it shows are the same; more generally
  the flag computed on load depends on the ledger only through that user's records.
\<close>

theorem C9_users_independent:
  "(ls_currentUser ls = Some u \<and> rec_id r \<noteq> user_id u \<longrightarrow>
      hasCheckedIn (attendanceMount toDateString now (ls\<lparr>ls_attendanceRecords := Some (records @ [r])\<rparr>))
        = hasCheckedIn (attendanceMount toDateString now (ls\<lparr>ls_attendanceRecords := Some records\<rparr>)) \<and>
      historyMount (ls\<lparr>ls_attendanceRecords := Some (records @ [r])\<rparr>)
        = historyMount (ls\<lparr>ls_attendanceRecords := Some records\<rparr>) \<and>
      historyRows (historyMount (ls\<lparr>ls_attendanceRecords := Some (records @ [r])\<rparr>))
        = historyRows (historyMount (ls\<lparr>ls_attendanceRecords := Some records\<rparr>))) \<and>
   (userRecords uid l1 = userRecords uid l2 \<longrightarrow>
      loadHasCheckedIn toDateString now uid l1 = loadHasCheckedIn toDateString now uid l2)"
proof -
  have "loadHasCheckedIn toDateString now uid l1 = loadHasCheckedIn toDateString now uid l2"
    if "userRecords uid l1 = userRecords uid l2"
    using that loadHasCheckedIn_userRecords [of toDateString now uid l1]
      loadHasCheckedIn_userRecords [of toDateString now uid l2] by simp
  then show ?thesis
    by (auto simp: attendanceMount_def getCurrentLocation_def initialState_def Let_def
        loadHasCheckedIn_def historyMount_def userRecords_def)
qed

theorem C9_users_independent_witness:
  "ls_currentUser (snd afterCheckIn) = Some userU1 \<and> rec_id recU2 \<noteq> user_id userU1 \<and>
   userRecords ''U1'' [recIn, recU2] = userRecords ''U1'' [recIn] \<and>
   hasCheckedIn (attendanceMount utcDay 4000
       ((snd afterCheckIn)\<lparr>ls_attendanceRecords := Some ([recIn] @ [recU2])\<rparr>))
     = hasCheckedIn (attendanceMount utcDay 4000
       ((snd afterCheckIn)\<lparr>ls_attendanceRecords := Some [recIn]\<rparr>)) \<and>
   historyMount ((snd afterCheckIn)\<lparr>ls_attendanceRecords := Some ([recIn] @ [recU2])\<rparr>)
     = historyMount ((snd afterCheckIn)\<lparr>ls_attendanceRecords := Some [recIn]\<rparr>) \<and>
   loadHasCheckedIn utcDay 4000 ''U1'' [recIn, recU2] = loadHasCheckedIn utcDay 4000 ''U1'' [recIn]"
proof -
  have h: "ls_currentUser (snd afterCheckIn) = Some userU1" "rec_id recU2 \<noteq> user_id userU1"
    "userRecords ''U1'' [recIn, recU2] = userRecords ''U1'' [recIn]"
    by (simp_all add: afterCheckIn_eq recU2_def recIn_def userU1_def userRecords_def)
  show ?thesis
    using h C9_users_independent [of "snd afterCheckIn" userU1 recU2 utcDay 4000 "[recIn]"
        "''U1''" "[recIn, recU2]" "[recIn]"]
    by simp
qed

end
